theory Spec2Isabelle
  imports Main
begin

section \<open>Values of the platform\<close>

text \<open>
  Instants are milliseconds since the epoch, as \<^verbatim>\<open>Date.now()\<close> counts them. Identifiers,
  emails, names and hashes are strings. A JavaScript string is falsy exactly when it is
  empty; \<^verbatim>\<open>null\<close> and \<^verbatim>\<open>undefined\<close> are \<open>None\<close> and are falsy too.
\<close>

type_synonym instant = int

definition truthy :: "string \<Rightarrow> bool" where
  "truthy s = (s \<noteq> [])"

fun truthyOpt :: "string option \<Rightarrow> bool" where
  "truthyOpt None = False"
| "truthyOpt (Some s) = truthy s"

text \<open>\<^verbatim>\<open>Array.prototype.join\<close> on strings.\<close>

fun join :: "string \<Rightarrow> string list \<Rightarrow> string" where
  "join sep [] = []"
| "join sep [x] = x"
| "join sep (x # y # ys) = x @ sep @ join sep (y # ys)"

section \<open>The store\<close>

text \<open>
  One record per table row of the migration, with the columns the code reads and
  writes and the columns that are \<^verbatim>\<open>NOT NULL\<close> without a default; the implicit
  many-to-many tables are lists of pairs (column A, column B), as the migration names
  them. Roles are related to memberships and to permissions only: the migration has no
  relation between User and Role.
\<close>

record session =
  session_id :: string
  session_expirationDate :: instant
  session_activeAccountId :: "string option"

record account =
  account_id :: string
  account_email :: string
  account_username :: string

record password =
  password_accountId :: string
  password_hash :: string

record user =
  user_id :: string
  user_accountId :: string
  user_name :: string
  user_username :: string
  user_email :: string

record membership =
  membership_id :: string
  membership_userId :: "string option"
  membership_organizationId :: string

record role =
  role_id :: string
  role_name :: string

record permission =
  permission_id :: string
  permission_action :: string
  permission_entity :: string
  permission_access :: string

record organization =
  organization_id :: string
  organization_name :: string

record connection =
  connection_id :: string
  connection_providerName :: string
  connection_providerId :: string
  connection_accountId :: "string option"

record db =
  sessions :: "session list"
  accountToSession :: "(string \<times> string) list"
  accounts :: "account list"
  passwords :: "password list"
  users :: "user list"
  memberships :: "membership list"
  membershipToRole :: "(string \<times> string) list"
  roles :: "role list"
  permissions :: "permission list"
  rolePermissions :: "(string \<times> string) list"
  organizations :: "organization list"
  connections :: "connection list"

section \<open>Requests, responses and outcomes\<close>

text \<open>
  A request carries the value stored under \<^verbatim>\<open>sessionKey\<close> in its signed auth cookie
  session, the value \<^verbatim>\<open>getRedirectCookieValue\<close> reads from it, and the path and query of
  its URL.
\<close>

record request =
  authSessionId :: "string option"
  redirectCookieValue :: "string option"
  url_pathname :: string
  url_search :: string

record toast =
  toast_title :: string
  toast_description :: string
  toast_type :: "string option"

record providerUser =
  profile_id :: string
  profile_email :: string
  profile_username :: "string option"
  profile_name :: "string option"
  profile_imageUrl :: "string option"

datatype verifyKey = onboardingEmailSessionKey | prefilledProfileKey | providerIdKey

datatype verifyValue = VString string | VProfile providerUser

type_synonym verifySession = "(verifyKey \<times> verifyValue) list"

datatype setCookie =
    DestroyAuthSession
  | DestroyRedirectTo
  | ToastCookie toast
  | CommitVerifySession verifySession

record permissionData =
  pd_action :: string
  pd_entity :: "string option"
  pd_access :: "string list option"

datatype requirement = RequiredPermission permissionData | RequiredRole string

record unauthorized =
  body_error :: string
  body_required :: requirement
  body_message :: string

datatype response =
    Redirect string "setCookie list"
  | Json unauthorized nat
  | FlyReplay

datatype error =
    ZodError
  | UniqueConstraintFailed string
  | RecordNotFound string
  | ForeignKeyFailed string
  | NullConstraintFailed string
  | ValidationError string

text \<open>
  An async function returns a value, throws a \<^verbatim>\<open>Response\<close> (which the framework
  sends), or rejects with an error.
\<close>

datatype 'a outcome = Return 'a | ThrowResponse response | ThrowError error

section \<open>Session resolution (auth.server.ts)\<close>

definition SESSION_EXPIRATION_TIME :: int where
  "SESSION_EXPIRATION_TIME = 1000 * 60 * 60 * 24 * 30"

definition getSessionExpirationDate :: "instant \<Rightarrow> instant" where
  "getSessionExpirationDate now = now + SESSION_EXPIRATION_TIME"

text \<open>
  \<^verbatim>\<open>prisma.session.findUnique\<close> with \<^verbatim>\<open>where: { id, expirationDate: { gt: now } }\<close>, and
  the ids of the accounts related to a session.
\<close>

definition session_findUnique :: "db \<Rightarrow> string \<Rightarrow> instant \<Rightarrow> session option" where
  "session_findUnique d sessionId now =
     find (\<lambda>s. session_id s = sessionId \<and> now < session_expirationDate s) (sessions d)"

definition session_accounts :: "db \<Rightarrow> session \<Rightarrow> string list" where
  "session_accounts d s =
     map account_id
       (filter (\<lambda>a. (account_id a, session_id s) \<in> set (accountToSession d)) (accounts d))"

definition homeRedirect :: response where
  "homeRedirect = Redirect ''/'' [DestroyAuthSession]"

definition getAccountId :: "instant \<Rightarrow> db \<Rightarrow> request \<Rightarrow> string option outcome" where
  "getAccountId now d req =
     (case authSessionId req of
        None \<Rightarrow> Return None
      | Some sessionId \<Rightarrow>
          if \<not> truthy sessionId then Return None
          else
            (case session_findUnique d sessionId now of
               None \<Rightarrow> ThrowResponse homeRedirect
             | Some s \<Rightarrow>
                 (case find (\<lambda>i. Some i = session_activeAccountId s) (session_accounts d s) of
                    None \<Rightarrow> ThrowResponse homeRedirect
                  | Some i \<Rightarrow> Return (Some i))))"

text \<open>
  \<^verbatim>\<open>new URLSearchParams({ redirectTo }).toString()\<close>: the key is written as it is, the
  value through the platform's form encoding \<open>enc\<close>.
\<close>

definition redirectToParams :: "(string \<Rightarrow> string) \<Rightarrow> string \<Rightarrow> string" where
  "redirectToParams enc redirectTo = ''redirectTo='' @ enc redirectTo"

text \<open>An optional argument that may also be passed as \<^verbatim>\<open>null\<close>.\<close>

datatype 'a nullable = Undefined | Null | Value 'a

definition requireAccountId ::
  "instant \<Rightarrow> (string \<Rightarrow> string) \<Rightarrow> db \<Rightarrow> request \<Rightarrow> string nullable \<Rightarrow> string outcome" where
  "requireAccountId now enc d req redirectTo =
     (case getAccountId now d req of
        ThrowResponse r \<Rightarrow> ThrowResponse r
      | ThrowError e \<Rightarrow> ThrowError e
      | Return accountId \<Rightarrow>
          (case (if truthyOpt accountId then accountId else None) of
             Some i \<Rightarrow> Return i
           | None \<Rightarrow>
               let target =
                     (case redirectTo of
                        Null \<Rightarrow> None
                      | Undefined \<Rightarrow> Some (url_pathname req @ url_search req)
                      | Value r \<Rightarrow> Some r);
                   loginParams =
                     (case target of
                        None \<Rightarrow> None
                      | Some r \<Rightarrow> if truthy r then Some (redirectToParams enc r) else None);
                   loginRedirect =
                     join ''?''
                       (filter truthy
                          (''/login'' # (case loginParams of None \<Rightarrow> [] | Some q \<Rightarrow> [q])))
               in ThrowResponse (Redirect loginRedirect [])))"

section \<open>Writes to the store\<close>

text \<open>
  Each write checks the constraints of the migration (primary keys, unique indexes,
  foreign keys that restrict) and either fails or returns the store with the row added.
  The ids that the store generates for new rows are arguments.
\<close>

definition create_session :: "string \<Rightarrow> instant \<Rightarrow> string option \<Rightarrow> db \<Rightarrow> error + db" where
  "create_session newId expirationDate activeAccountId d =
     (if list_ex (\<lambda>s. session_id s = newId) (sessions d)
      then Inl (UniqueConstraintFailed ''Session.id'')
      else Inr (d\<lparr>sessions := sessions d @
             [\<lparr>session_id = newId, session_expirationDate = expirationDate,
               session_activeAccountId = activeAccountId\<rparr>]\<rparr>))"

definition connect_account_session :: "string \<Rightarrow> string \<Rightarrow> db \<Rightarrow> error + db" where
  "connect_account_session accountId sessionId d =
     (if \<not> list_ex (\<lambda>a. account_id a = accountId) (accounts d)
      then Inl (RecordNotFound ''Account'')
      else if (accountId, sessionId) \<in> set (accountToSession d) then Inr d
      else Inr (d\<lparr>accountToSession := accountToSession d @ [(accountId, sessionId)]\<rparr>))"

definition create_account :: "string \<Rightarrow> string \<Rightarrow> string \<Rightarrow> db \<Rightarrow> error + db" where
  "create_account newId email username d =
     (if list_ex (\<lambda>a. account_id a = newId) (accounts d)
      then Inl (UniqueConstraintFailed ''Account.id'')
      else if list_ex (\<lambda>a. account_username a = username) (accounts d)
      then Inl (UniqueConstraintFailed ''Account.username'')
      else if list_ex (\<lambda>a. account_email a = email) (accounts d)
      then Inl (UniqueConstraintFailed ''Account.email'')
      else Inr (d\<lparr>accounts := accounts d @
             [\<lparr>account_id = newId, account_email = email, account_username = username\<rparr>]\<rparr>))"

definition create_password :: "string \<Rightarrow> string \<Rightarrow> db \<Rightarrow> error + db" where
  "create_password accountId hash d =
     (if list_ex (\<lambda>p. password_accountId p = accountId) (passwords d)
      then Inl (UniqueConstraintFailed ''Password.accountId'')
      else Inr (d\<lparr>passwords := passwords d @
             [\<lparr>password_accountId = accountId, password_hash = hash\<rparr>]\<rparr>))"

text \<open>
  A new User row needs a username and an email: both columns are \<^verbatim>\<open>NOT NULL\<close> and have
  no default. A create that leaves one of them out (\<open>None\<close>) is rejected.
\<close>

definition create_user ::
  "string \<Rightarrow> string \<Rightarrow> string \<Rightarrow> string option \<Rightarrow> string option \<Rightarrow> db \<Rightarrow> error + db" where
  "create_user newId accountId name username email d =
     (case username of
        None \<Rightarrow> Inl (NullConstraintFailed ''User.username'')
      | Some un \<Rightarrow>
          (case email of
             None \<Rightarrow> Inl (NullConstraintFailed ''User.email'')
           | Some em \<Rightarrow>
               if list_ex (\<lambda>u. user_id u = newId) (users d)
               then Inl (UniqueConstraintFailed ''User.id'')
               else Inr (d\<lparr>users := users d @
                      [\<lparr>user_id = newId, user_accountId = accountId, user_name = name,
                        user_username = un, user_email = em\<rparr>]\<rparr>)))"

definition create_membership :: "string \<Rightarrow> string \<Rightarrow> string \<Rightarrow> db \<Rightarrow> error + db" where
  "create_membership newId userId organizationId d =
     (if list_ex (\<lambda>m. membership_id m = newId) (memberships d)
      then Inl (UniqueConstraintFailed ''Membership.id'')
      else if \<not> list_ex (\<lambda>og. organization_id og = organizationId) (organizations d)
      then Inl (ForeignKeyFailed ''Membership.organizationId'')
      else Inr (d\<lparr>memberships := memberships d @
             [\<lparr>membership_id = newId, membership_userId = Some userId,
               membership_organizationId = organizationId\<rparr>]\<rparr>))"

definition connect_membership_role :: "string \<Rightarrow> string \<Rightarrow> db \<Rightarrow> error + db" where
  "connect_membership_role membershipId roleName d =
     (case find (\<lambda>r. role_name r = roleName) (roles d) of
        None \<Rightarrow> Inl (RecordNotFound ''Role'')
      | Some r \<Rightarrow>
          if (membershipId, role_id r) \<in> set (membershipToRole d) then Inr d
          else Inr (d\<lparr>membershipToRole := membershipToRole d @ [(membershipId, role_id r)]\<rparr>))"

definition create_connection ::
  "string \<Rightarrow> string \<Rightarrow> string \<Rightarrow> string \<Rightarrow> db \<Rightarrow> error + db" where
  "create_connection newId providerName providerId accountId d =
     (if list_ex (\<lambda>c. connection_id c = newId) (connections d)
      then Inl (UniqueConstraintFailed ''Connection.id'')
      else if list_ex (\<lambda>c. connection_providerName c = providerName
                          \<and> connection_providerId c = providerId) (connections d)
      then Inl (UniqueConstraintFailed ''Connection.providerName_providerId'')
      else if \<not> list_ex (\<lambda>a. account_id a = accountId) (accounts d)
      then Inl (ForeignKeyFailed ''Connection.accountId'')
      else Inr (d\<lparr>connections := connections d @
             [\<lparr>connection_id = newId, connection_providerName = providerName,
               connection_providerId = providerId, connection_accountId = Some accountId\<rparr>]\<rparr>))"

text \<open>
  The writes of one nested \<^verbatim>\<open>create\<close> run in order as one transaction: the first
  failure aborts it, and the store the caller had is the store that remains.
\<close>

fun writes :: "(db \<Rightarrow> error + db) list \<Rightarrow> db \<Rightarrow> error + db" where
  "writes [] d = Inr d"
| "writes (w # ws) d = (case w d of Inl e \<Rightarrow> Inl e | Inr d' \<Rightarrow> writes ws d')"

definition transaction :: "(db \<Rightarrow> error + db) list \<Rightarrow> 'a \<Rightarrow> db \<Rightarrow> db \<times> 'a outcome" where
  "transaction ws selected d =
     (case writes ws d of
        Inl e \<Rightarrow> (d, ThrowError e)
      | Inr d' \<Rightarrow> (d', Return selected))"

section \<open>Credentials, login and signup (auth.server.ts)\<close>

datatype accountWhere = ByUsername string | ById string

definition account_findUnique :: "db \<Rightarrow> accountWhere \<Rightarrow> account option" where
  "account_findUnique d w =
     (case w of
        ByUsername u \<Rightarrow> find (\<lambda>a. account_username a = u) (accounts d)
      | ById i \<Rightarrow> find (\<lambda>a. account_id a = i) (accounts d))"

definition account_password :: "db \<Rightarrow> account \<Rightarrow> password option" where
  "account_password d a = find (\<lambda>p. password_accountId p = account_id a) (passwords d)"

text \<open>
  \<open>compare\<close> is \<^verbatim>\<open>bcrypt.compare\<close>, \<open>hash\<close> is \<^verbatim>\<open>bcrypt.hash\<close> at cost 10 with the salt
  it draws.
\<close>

definition verifyAccountPassword ::
  "(string \<Rightarrow> string \<Rightarrow> bool) \<Rightarrow> db \<Rightarrow> accountWhere \<Rightarrow> string \<Rightarrow> string option" where
  "verifyAccountPassword compare d w password =
     (case account_findUnique d w of
        None \<Rightarrow> None
      | Some userWithPassword \<Rightarrow>
          (case account_password d userWithPassword of
             None \<Rightarrow> None
           | Some p \<Rightarrow>
               if \<not> compare password (password_hash p) then None
               else Some (account_id userWithPassword)))"

definition getPasswordHash :: "(string \<Rightarrow> string) \<Rightarrow> string \<Rightarrow> string" where
  "getPasswordHash hash password = hash password"

text \<open>
  \<^verbatim>\<open>login\<close> returns the created session row with its accounts, or \<^verbatim>\<open>null\<close>.
\<close>

definition login ::
  "instant \<Rightarrow> (string \<Rightarrow> string \<Rightarrow> bool) \<Rightarrow> string \<Rightarrow> db \<Rightarrow> string \<Rightarrow> string
     \<Rightarrow> db \<times> session option outcome" where
  "login now compare newId d username password =
     (case verifyAccountPassword compare d (ByUsername username) password of
        None \<Rightarrow> (d, Return None)
      | Some accountId \<Rightarrow>
          transaction
            [create_session newId (getSessionExpirationDate now) (Some accountId),
             connect_account_session accountId newId]
            (Some \<lparr>session_id = newId,
                   session_expirationDate = getSessionExpirationDate now,
                   session_activeAccountId = Some accountId\<rparr>)
            d)"

record newIds =
  new_session :: string
  new_account :: string
  new_user :: string
  new_membership :: string

text \<open>
  \<^verbatim>\<open>signup\<close> is one nested create on Session; it selects the id and the expiration
  date of the new session. \<open>lower\<close> is \<^verbatim>\<open>String.prototype.toLowerCase\<close>. The session
  is given no active account, and the nested \<^verbatim>\<open>users.create\<close> is given a name and
  memberships but neither a username nor an email.
\<close>

definition signup ::
  "instant \<Rightarrow> (string \<Rightarrow> string) \<Rightarrow> (string \<Rightarrow> string) \<Rightarrow> newIds \<Rightarrow> db
     \<Rightarrow> string \<Rightarrow> string \<Rightarrow> string \<Rightarrow> string \<Rightarrow> db \<times> (string \<times> instant) outcome" where
  "signup now hash lower ids d email username password name =
     (let hashedPassword = getPasswordHash hash password in
      transaction
        [create_session (new_session ids) (getSessionExpirationDate now) None,
         create_account (new_account ids) (lower email) (lower username),
         connect_account_session (new_account ids) (new_session ids),
         create_password (new_account ids) hashedPassword,
         create_user (new_user ids) (new_account ids) name None None,
         create_membership (new_membership ids) (new_user ids) ''default'',
         connect_membership_role (new_membership ids) ''user'']
        (new_session ids, getSessionExpirationDate now)
        d)"

section \<open>Permission checks (permissions.server.ts)\<close>

text \<open>\<^verbatim>\<open>String.prototype.split\<close> at one separator character.\<close>

fun splitOn :: "char \<Rightarrow> string \<Rightarrow> string list" where
  "splitOn c [] = [[]]"
| "splitOn c (x # xs) =
     (if x = c then [] # splitOn c xs
      else (case splitOn c xs of [] \<Rightarrow> [[x]] | y # ys \<Rightarrow> (x # y) # ys))"

definition nth_opt :: "'a list \<Rightarrow> nat \<Rightarrow> 'a option" where
  "nth_opt xs n = (if n < length xs then Some (xs ! n) else None)"

text \<open>
  Modelled from the spec: \<^verbatim>\<open>parsePermissionString\<close> of \<^verbatim>\<open>app/utils/user.ts\<close>, which is
  not among the sources. The string \<^verbatim>\<open>action:entity:access\<close> is split at the colons into
  action, entity and an optional access part; a non-empty access part is split at the
  commas into the requested access set.
\<close>

definition parsePermissionString :: "string \<Rightarrow> permissionData" where
  "parsePermissionString permissionString =
     (let parts = splitOn CHR '':'' permissionString in
      \<lparr>pd_action = (case nth_opt parts 0 of None \<Rightarrow> [] | Some a \<Rightarrow> a),
       pd_entity = nth_opt parts 1,
       pd_access =
         (case nth_opt parts 2 of
            None \<Rightarrow> None
          | Some access \<Rightarrow> if truthy access then Some (splitOn CHR '','' access) else None)\<rparr>)"

text \<open>
  The filter on Permission: action and entity as parsed (an undefined key does not
  filter), and \<^verbatim>\<open>access: { in: ... }\<close> only when an access set was parsed.
\<close>

definition permission_matches :: "permissionData \<Rightarrow> permission \<Rightarrow> bool" where
  "permission_matches pd p =
     (permission_action p = pd_action pd
      \<and> (case pd_entity pd of None \<Rightarrow> True | Some e \<Rightarrow> permission_entity p = e)
      \<and> (case pd_access pd of None \<Rightarrow> True | Some as \<Rightarrow> permission_access p \<in> set as))"

definition role_has_permission :: "db \<Rightarrow> permissionData \<Rightarrow> role \<Rightarrow> bool" where
  "role_has_permission d pd r =
     list_ex (\<lambda>p. (permission_id p, role_id r) \<in> set (rolePermissions d)
                  \<and> permission_matches pd p) (permissions d)"

definition membership_has_permission :: "db \<Rightarrow> string \<Rightarrow> permissionData \<Rightarrow> membership \<Rightarrow> bool" where
  "membership_has_permission d organizationId pd m =
     (membership_organizationId m = organizationId
      \<and> list_ex (\<lambda>r. (membership_id m, role_id r) \<in> set (membershipToRole d)
                     \<and> role_has_permission d pd r) (roles d))"

text \<open>\<^verbatim>\<open>process.env.ORGANIZATION_ID || 'default'\<close>.\<close>

definition organizationScope :: "string option \<Rightarrow> string" where
  "organizationScope ORGANIZATION_ID =
     (case ORGANIZATION_ID of
        None \<Rightarrow> ''default''
      | Some og \<Rightarrow> if truthy og then og else ''default'')"

text \<open>
  \<^verbatim>\<open>prisma.user.findFirst\<close> of \<^verbatim>\<open>requireUserWithPermission\<close>: a User row whose id is
  the given id and that has some membership in the organization with some role with some
  matching permission.
\<close>

definition user_findFirst_withPermission ::
  "db \<Rightarrow> string \<Rightarrow> string \<Rightarrow> permissionData \<Rightarrow> user option" where
  "user_findFirst_withPermission d userId organizationId pd =
     find (\<lambda>u. user_id u = userId
               \<and> list_ex (\<lambda>m. membership_userId m = Some (user_id u)
                              \<and> membership_has_permission d organizationId pd m)
                    (memberships d))
       (users d)"

definition unauthorizedPermission :: "string \<Rightarrow> permissionData \<Rightarrow> response" where
  "unauthorizedPermission permission pd =
     Json \<lparr>body_error = ''Unauthorized'',
           body_required = RequiredPermission pd,
           body_message = ''Unauthorized: required permissions: '' @ permission\<rparr> 403"

definition requireUserWithPermission ::
  "instant \<Rightarrow> (string \<Rightarrow> string) \<Rightarrow> string option \<Rightarrow> db \<Rightarrow> request \<Rightarrow> string \<Rightarrow> string outcome" where
  "requireUserWithPermission now enc ORGANIZATION_ID d req permission =
     (case requireAccountId now enc d req Undefined of
        ThrowResponse r \<Rightarrow> ThrowResponse r
      | ThrowError e \<Rightarrow> ThrowError e
      | Return userId \<Rightarrow>
          (let permissionData = parsePermissionString permission in
           case user_findFirst_withPermission d userId
                  (organizationScope ORGANIZATION_ID) permissionData of
             None \<Rightarrow> ThrowResponse (unauthorizedPermission permission permissionData)
           | Some u \<Rightarrow> Return (user_id u)))"

text \<open>
  \<^verbatim>\<open>prisma.user.findFirst\<close> of \<^verbatim>\<open>requireUserWithRole\<close>: the filter
  \<^verbatim>\<open>{ id: userId, roles: { some: { name } } }\<close> names a relation \<^verbatim>\<open>roles\<close> of User. The
  migration declares no such relation, so the client rejects the query, whatever the
  store holds.
\<close>

definition user_findFirst_withRole :: "db \<Rightarrow> string \<Rightarrow> string \<Rightarrow> error + user option" where
  "user_findFirst_withRole d userId name = Inl (ValidationError ''User.roles'')"

definition unauthorizedRole :: "string \<Rightarrow> response" where
  "unauthorizedRole name =
     Json \<lparr>body_error = ''Unauthorized'',
           body_required = RequiredRole name,
           body_message = ''Unauthorized: required role: '' @ name\<rparr> 403"

definition requireUserWithRole ::
  "instant \<Rightarrow> (string \<Rightarrow> string) \<Rightarrow> db \<Rightarrow> request \<Rightarrow> string \<Rightarrow> string outcome" where
  "requireUserWithRole now enc d req name =
     (case requireAccountId now enc d req Undefined of
        ThrowResponse r \<Rightarrow> ThrowResponse r
      | ThrowError e \<Rightarrow> ThrowError e
      | Return userId \<Rightarrow>
          (case user_findFirst_withRole d userId name of
             Inl e \<Rightarrow> ThrowError e
           | Inr None \<Rightarrow> ThrowResponse (unauthorizedRole name)
           | Inr (Some u) \<Rightarrow> Return (user_id u)))"

section \<open>The OAuth callback (auth.$provider.callback.ts)\<close>

text \<open>
  What the callback takes from its collaborators: the clock, the encodings, whether this
  instance is the primary, the provider names that \<^verbatim>\<open>ProviderNameSchema\<close> accepts and
  their labels, the result of \<^verbatim>\<open>authenticator.authenticate\<close> (the thrown value or the
  profile), the ids the store generates, and \<^verbatim>\<open>handleNewSession\<close> of
  \<^verbatim>\<open>login.server.ts\<close>, applied to the store, the request, the session, the redirect
  target, the remember flag and the headers.
\<close>

record env =
  env_now :: instant
  env_urlencode :: "string \<Rightarrow> string"
  env_toLowerCase :: "string \<Rightarrow> string"
  env_normalizeEmail :: "string \<Rightarrow> string"
  env_normalizeUsername :: "string \<Rightarrow> string"
  env_currentIsPrimary :: bool
  env_providerNames :: "string list"
  env_providerLabels :: "string \<Rightarrow> string"
  env_authenticate :: "string \<Rightarrow> request \<Rightarrow> string + providerUser"
  env_newSessionId :: string
  env_newConnectionId :: string
  env_handleNewSession ::
    "db \<Rightarrow> request \<Rightarrow> session \<Rightarrow> string \<Rightarrow> bool \<Rightarrow> setCookie list \<Rightarrow> response outcome"

text \<open>The store together with the lines written by \<^verbatim>\<open>console.error\<close>.\<close>

record state =
  state_db :: db
  state_log :: "string list"

text \<open>
  Modelled from the spec: \<^verbatim>\<open>combineHeaders\<close> of \<^verbatim>\<open>misc.tsx\<close>, and
  \<^verbatim>\<open>createToastHeaders\<close> and \<^verbatim>\<open>redirectWithToast\<close> of \<^verbatim>\<open>toast.server.ts\<close>, which are
  not among the sources. Combined headers keep every header of every argument in order;
  a toast travels as one cookie header; a redirect with a toast is a redirect to the
  route carrying the given headers and the toast.
\<close>

definition combineHeaders :: "setCookie list list \<Rightarrow> setCookie list" where
  "combineHeaders hs = concat hs"

definition createToastHeaders :: "toast \<Rightarrow> setCookie list" where
  "createToastHeaders t = [ToastCookie t]"

definition redirectWithToast :: "string \<Rightarrow> toast \<Rightarrow> setCookie list \<Rightarrow> response" where
  "redirectWithToast url t headers =
     Redirect url (combineHeaders [headers, createToastHeaders t])"

definition destroyRedirectTo :: "setCookie list" where
  "destroyRedirectTo = [DestroyRedirectTo]"

text \<open>A value in a template literal: \<^verbatim>\<open>undefined\<close> prints as its name.\<close>

definition interpolate :: "string option \<Rightarrow> string" where
  "interpolate v = (case v of None \<Rightarrow> ''undefined'' | Some s \<Rightarrow> s)"

definition quoted :: "string \<Rightarrow> string" where
  "quoted s = [CHR 0x22] @ s @ [CHR 0x22]"

definition connection_findUnique :: "db \<Rightarrow> string \<Rightarrow> string \<Rightarrow> connection option" where
  "connection_findUnique d providerName providerId =
     find (\<lambda>c. connection_providerName c = providerName \<and> connection_providerId c = providerId)
       (connections d)"

definition account_findUnique_email :: "db \<Rightarrow> string \<Rightarrow> account option" where
  "account_findUnique_email d email = find (\<lambda>a. account_email a = email) (accounts d)"

text \<open>\<^verbatim>\<open>session.set\<close> on a cookie session: the key's value is replaced or added.\<close>

fun session_set :: "verifyKey \<Rightarrow> verifyValue \<Rightarrow> verifySession \<Rightarrow> verifySession" where
  "session_set k v [] = [(k, v)]"
| "session_set k v ((k', v') # kvs) =
     (if k' = k then (k, v) # kvs else (k', v') # session_set k v kvs)"

definition makeSession ::
  "env \<Rightarrow> state \<Rightarrow> request \<Rightarrow> string option \<Rightarrow> setCookie list \<Rightarrow> state \<times> response outcome" where
  "makeSession env st request activeAccountId headers =
     (let redirectTo = ''/'' in
      case create_session (env_newSessionId env) (getSessionExpirationDate (env_now env))
             activeAccountId (state_db st) of
        Inl e \<Rightarrow> (st, ThrowError e)
      | Inr d' \<Rightarrow>
          (st\<lparr>state_db := d'\<rparr>,
           env_handleNewSession env d' request
             \<lparr>session_id = env_newSessionId env,
              session_expirationDate = getSessionExpirationDate (env_now env),
              session_activeAccountId = activeAccountId\<rparr>
             redirectTo True (combineHeaders [headers, destroyRedirectTo])))"

text \<open>The last branch of the loader: a new identity is sent to onboarding.\<close>

definition onboard :: "env \<Rightarrow> request \<Rightarrow> string \<Rightarrow> providerUser \<Rightarrow> response" where
  "onboard env request providerName profile =
     (let verifySession0 = [];
          verifySession1 =
            session_set onboardingEmailSessionKey (VString (profile_email profile)) verifySession0;
          verifySession2 =
            session_set prefilledProfileKey
              (VProfile (profile\<lparr>profile_email := env_normalizeEmail env (profile_email profile),
                                 profile_username :=
                                   map_option (env_normalizeUsername env) (profile_username profile)\<rparr>))
              verifySession1;
          verifySession3 =
            session_set providerIdKey (VString (profile_id profile)) verifySession2;
          onboardingRedirect =
            join ''?''
              ((''/onboarding/'' @ providerName)
               # (case redirectCookieValue request of
                    None \<Rightarrow> []
                  | Some redirectTo \<Rightarrow>
                      if truthy redirectTo then [redirectToParams (env_urlencode env) redirectTo]
                      else []))
      in Redirect onboardingRedirect
           (combineHeaders [[CommitVerifySession verifySession3], destroyRedirectTo]))"

definition loader :: "env \<Rightarrow> state \<Rightarrow> request \<Rightarrow> string \<Rightarrow> state \<times> response outcome" where
  "loader env st request provider =
     (if \<not> env_currentIsPrimary env then (st, ThrowResponse FlyReplay)
      else if provider \<notin> set (env_providerNames env) then (st, ThrowError ZodError)
      else
        let providerName = provider;
            label = env_providerLabels env providerName
        in
        case env_authenticate env providerName request of
          Inl authError \<Rightarrow>
            (st\<lparr>state_log := state_log st @ [authError]\<rparr>,
             ThrowResponse
               (redirectWithToast ''/login''
                  \<lparr>toast_title = ''Auth Failed'',
                   toast_description = ''There was an error authenticating with '' @ label @ ''.'',
                   toast_type = Some ''error''\<rparr>
                  destroyRedirectTo))
        | Inr profile \<Rightarrow>
            let existingConnection =
                  connection_findUnique (state_db st) providerName (profile_id profile)
            in
            (case getAccountId (env_now env) (state_db st) request of
               ThrowResponse r \<Rightarrow> (st, ThrowResponse r)
             | ThrowError e \<Rightarrow> (st, ThrowError e)
             | Return accountId \<Rightarrow>
                 (case (existingConnection, if truthyOpt accountId then accountId else None) of
                    (Some c, Some a) \<Rightarrow>
                      if connection_accountId c = Some a then
                        (st, Return
                           (redirectWithToast ''/settings/profile/connections''
                              \<lparr>toast_title = ''Already Connected'',
                               toast_description =
                                 ''Your '' @ quoted (interpolate (profile_username profile)) @ '' ''
                                 @ label @ '' account is already connected.'',
                               toast_type = None\<rparr>
                              destroyRedirectTo))
                      else
                        (st, Return
                           (redirectWithToast ''/settings/profile/connections''
                              \<lparr>toast_title = ''Already Connected'',
                               toast_description =
                                 ''The '' @ quoted (interpolate (profile_username profile)) @ '' ''
                                 @ label @ '' account is already connected to another account.'',
                               toast_type = None\<rparr>
                              destroyRedirectTo))
                  | (None, Some a) \<Rightarrow>
                      (case create_connection (env_newConnectionId env) providerName
                              (profile_id profile) a (state_db st) of
                         Inl e \<Rightarrow> (st, ThrowError e)
                       | Inr d' \<Rightarrow>
                           (st\<lparr>state_db := d'\<rparr>, Return
                              (redirectWithToast ''/settings/profile/connections''
                                 \<lparr>toast_title = ''Connected'',
                                  toast_description =
                                    ''Your '' @ quoted (interpolate (profile_username profile))
                                    @ '' '' @ label @ '' account has been connected.'',
                                  toast_type = Some ''success''\<rparr>
                                 destroyRedirectTo)))
                  | (Some c, None) \<Rightarrow>
                      makeSession env st request (connection_accountId c) []
                  | (None, None) \<Rightarrow>
                      (case account_findUnique_email (state_db st)
                              (env_toLowerCase env (profile_email profile)) of
                         Some u \<Rightarrow>
                           (case create_connection (env_newConnectionId env) providerName
                                   (profile_id profile) (account_id u) (state_db st) of
                              Inl e \<Rightarrow> (st, ThrowError e)
                            | Inr d' \<Rightarrow>
                                makeSession env (st\<lparr>state_db := d'\<rparr>) request (Some (account_id u))
                                  (createToastHeaders
                                     \<lparr>toast_title = ''Connected'',
                                      toast_description =
                                        ''Your '' @ quoted (interpolate (profile_username profile))
                                        @ '' '' @ label @ '' account has been connected.'',
                                      toast_type = None\<rparr>))
                       | None \<Rightarrow> (st, Return (onboard env request providerName profile))))))"

section \<open>Example collaborators and stores\<close>

text \<open>
  Concrete collaborators for the examples: lower-casing of the ASCII letters, a hash that
  prefixes its input, the comparison that goes with it, and an encoding that leaves its
  input as it is.
\<close>

definition asciiLower :: "string \<Rightarrow> string" where
  "asciiLower s =
     map (\<lambda>c. if (65::nat) \<le> of_char c \<and> of_char c \<le> (90::nat)
             then char_of (of_char c + (32::nat)) else c) s"

definition exHash :: "string \<Rightarrow> string" where
  "exHash p = ''h:'' @ p"

definition exCompare :: "string \<Rightarrow> string \<Rightarrow> bool" where
  "exCompare p h = (h = ''h:'' @ p)"

definition exIds :: newIds where
  "exIds = \<lparr>new_session = ''s1'', new_account = ''a1'', new_user = ''u1'',
            new_membership = ''m1''\<rparr>"

text \<open>
  A seeded store: the default organization, the role \<^verbatim>\<open>user\<close> and the permission
  \<^verbatim>\<open>read:note:any\<close> attached to it.
\<close>

definition dbSeed :: db where
  "dbSeed =
     \<lparr>sessions = [], accountToSession = [], accounts = [], passwords = [], users = [],
      memberships = [], membershipToRole = [],
      roles = [\<lparr>role_id = ''r1'', role_name = ''user''\<rparr>],
      permissions = [\<lparr>permission_id = ''p1'', permission_action = ''read'',
                      permission_entity = ''note'', permission_access = ''any''\<rparr>],
      rolePermissions = [(''p1'', ''r1'')],
      organizations = [\<lparr>organization_id = ''default'', organization_name = ''Default''\<rparr>],
      connections = []\<rparr>"

text \<open>
  The seeded store with Alice's account, password, user and membership with the role
  \<^verbatim>\<open>user\<close>, and a session that has the account in its account set and no active
  account.
\<close>

definition dbAlice :: db where
  "dbAlice =
     \<lparr>sessions = [\<lparr>session_id = ''s1'', session_expirationDate = 2592000000,
                   session_activeAccountId = None\<rparr>],
      accountToSession = [(''a1'', ''s1'')],
      accounts = [\<lparr>account_id = ''a1'', account_email = ''alice@x.com'',
                   account_username = ''alice''\<rparr>],
      passwords = [\<lparr>password_accountId = ''a1'', password_hash = ''h:secret123''\<rparr>],
      users = [\<lparr>user_id = ''u1'', user_accountId = ''a1'', user_name = ''Alice'',
                user_username = ''alice'', user_email = ''alice@x.com''\<rparr>],
      memberships = [\<lparr>membership_id = ''m1'', membership_userId = Some ''u1'',
                      membership_organizationId = ''default''\<rparr>],
      membershipToRole = [(''m1'', ''r1'')],
      roles = [\<lparr>role_id = ''r1'', role_name = ''user''\<rparr>],
      permissions = [\<lparr>permission_id = ''p1'', permission_action = ''read'',
                      permission_entity = ''note'', permission_access = ''any''\<rparr>],
      rolePermissions = [(''p1'', ''r1'')],
      organizations = [\<lparr>organization_id = ''default'', organization_name = ''Default''\<rparr>],
      connections = []\<rparr>"

text \<open>The same store after \<^verbatim>\<open>login\<close> of Alice at instant 0 (session \<^verbatim>\<open>s2\<close>).\<close>

definition dbLoggedIn :: db where
  "dbLoggedIn =
     dbAlice
       \<lparr>sessions := sessions dbAlice @
          [\<lparr>session_id = ''s2'', session_expirationDate = 2592000000,
            session_activeAccountId = Some ''a1''\<rparr>],
        accountToSession := [(''a1'', ''s1''), (''a1'', ''s2'')]\<rparr>"

definition exRequest :: "string option \<Rightarrow> request" where
  "exRequest sessionId =
     \<lparr>authSessionId = sessionId, redirectCookieValue = None,
      url_pathname = ''/notes'', url_search = ''?page=2''\<rparr>"

text \<open>
  An environment for the callback: the instance is the primary, the one provider is
  \<^verbatim>\<open>github\<close>, the authentication result is given, and the stand-in for
  \<^verbatim>\<open>handleNewSession\<close> redirects to the target with the headers it receives.
\<close>

definition exProfile :: providerUser where
  "exProfile =
     \<lparr>profile_id = ''gh1'', profile_email = ''Alice@X.com'', profile_username = Some ''Alice'',
      profile_name = Some ''Alice'', profile_imageUrl = None\<rparr>"

definition exHandleNewSession ::
  "db \<Rightarrow> request \<Rightarrow> session \<Rightarrow> string \<Rightarrow> bool \<Rightarrow> setCookie list \<Rightarrow> response outcome" where
  "exHandleNewSession d request s redirectTo remember headers = Return (Redirect redirectTo headers)"

definition exEnv :: "string + providerUser \<Rightarrow> env" where
  "exEnv authResult =
     \<lparr>env_now = 1000, env_urlencode = id, env_toLowerCase = asciiLower,
      env_normalizeEmail = asciiLower, env_normalizeUsername = asciiLower,
      env_currentIsPrimary = True, env_providerNames = [''github''],
      env_providerLabels = (\<lambda>n. ''GitHub''),
      env_authenticate = (\<lambda>n r. authResult),
      env_newSessionId = ''s3'', env_newConnectionId = ''c2'',
      env_handleNewSession = exHandleNewSession\<rparr>"

text \<open>The logged-in store with Alice's account connected to the GitHub identity \<^verbatim>\<open>gh1\<close>.\<close>

definition dbConnected :: db where
  "dbConnected =
     dbLoggedIn
       \<lparr>connections :=
          [\<lparr>connection_id = ''c1'', connection_providerName = ''github'',
            connection_providerId = ''gh1'', connection_accountId = Some ''a1''\<rparr>]\<rparr>"

section \<open>Properties of session resolution\<close>

lemma find_SomeD: "find P xs = Some x \<Longrightarrow> x \<in> set xs \<and> P x"
  by (auto simp: find_Some_iff)


lemma session_findUnique_None_iff:
  "session_findUnique d sid now = None \<longleftrightarrow>
     \<not> list_ex (\<lambda>s. session_id s = sid \<and> now < session_expirationDate s) (sessions d)"
  unfolding session_findUnique_def by (auto simp: find_None_iff list_ex_iff)





lemma truthyOpt_Some_iff: "truthyOpt x \<longleftrightarrow> (\<exists>s. x = Some s \<and> truthy s)"
  by (cases x) auto






section \<open>Properties of signup and credentials\<close>

lemma writes_Cons_Inr:
  "writes (w # ws) d = Inr d' \<longleftrightarrow> (\<exists>d1. w d = Inr d1 \<and> writes ws d1 = Inr d')"
  by (cases "w d") auto

lemma writes_Nil_Inr: "writes [] d = Inr d' \<longleftrightarrow> d' = d"
  by auto

lemma transaction_Return:
  "transaction ws x d = (d', Return r) \<longleftrightarrow> writes ws d = Inr d' \<and> r = x"
  by (auto simp: transaction_def split: sum.splits)

lemma transaction_ThrowError:
  "transaction ws x d = (d', ThrowError e) \<longleftrightarrow> writes ws d = Inl e \<and> d' = d"
  by (auto simp: transaction_def split: sum.splits)

lemma transaction_no_ThrowResponse: "transaction ws x d \<noteq> (d', ThrowResponse r)"
  by (auto simp: transaction_def split: sum.splits)

lemma create_session_Inr:
  "create_session i e a d = Inr d1 \<Longrightarrow>
     d1 = d\<lparr>sessions := sessions d @
            [\<lparr>session_id = i, session_expirationDate = e, session_activeAccountId = a\<rparr>]\<rparr>
     \<and> \<not> list_ex (\<lambda>s. session_id s = i) (sessions d)"
  by (auto simp: create_session_def split: if_splits)

lemma connect_account_session_Inr:
  "connect_account_session a s d = Inr d1 \<Longrightarrow>
     (a, s) \<in> set (accountToSession d1)
     \<and> (\<exists>xs. d1 = d\<lparr>accountToSession := xs\<rparr>)
     \<and> list_ex (\<lambda>x. account_id x = a) (accounts d)"
  by (auto simp: connect_account_session_def split: if_splits intro: exI[of _ "accountToSession d"])

lemma find_None_list_ex: "find P xs = None \<longleftrightarrow> \<not> list_ex P xs"
  by (auto simp: find_None_iff list_ex_iff)

lemma verifyAccountPassword_unknown_username:
  "\<not> list_ex (\<lambda>a. account_username a = u) (accounts d) \<Longrightarrow>
     verifyAccountPassword compare d (ByUsername u) p = None"
  by (simp add: verifyAccountPassword_def account_findUnique_def find_None_list_ex[symmetric])

lemma verifyAccountPassword_no_password:
  "account_findUnique d w = Some a \<Longrightarrow>
   \<not> list_ex (\<lambda>p. password_accountId p = account_id a) (passwords d) \<Longrightarrow>
     verifyAccountPassword compare d w p = None"
  by (simp add: verifyAccountPassword_def account_password_def find_None_list_ex[symmetric])

lemma verifyAccountPassword_stored:
  "account_findUnique d w = Some a \<Longrightarrow> account_password d a = Some p \<Longrightarrow>
     verifyAccountPassword compare d w pw =
       (if compare pw (password_hash p) then Some (account_id a) else None)"
  by (simp add: verifyAccountPassword_def)

text \<open>
  \<^verbatim>\<open>signup\<close> never returns: its transaction reaches the create of the User row, which
  has no username and no email, or fails before. The store is the one before the call.
\<close>

lemma create_user_without_columns:
  "create_user i a n None None d = Inl (NullConstraintFailed ''User.username'')"
  by (simp add: create_user_def)

lemma signup_never_returns:
  "signup now hash lower ids d email username password name \<noteq> (d', Return r)"
proof
  assume "signup now hash lower ids d email username password name = (d', Return r)"
  then obtain d4 d5 where
    "create_user (new_user ids) (new_account ids) name None None d4 = Inr d5"
    unfolding signup_def Let_def transaction_Return writes_Cons_Inr
    by blast
  then show False by (simp add: create_user_without_columns)
qed

lemma signup_store_unchanged:
  "fst (signup now hash lower ids d email username password name) = d"
proof (cases "signup now hash lower ids d email username password name")
  case (Pair d' out)
  show ?thesis
  proof (cases out)
    case (Return r)
    with Pair signup_never_returns show ?thesis by blast
  next
    case (ThrowResponse x)
    with Pair have False
      by (simp add: signup_def Let_def transaction_no_ThrowResponse)
    then show ?thesis ..
  next
    case (ThrowError e)
    with Pair have "d' = d"
      by (simp add: signup_def Let_def transaction_ThrowError)
    with Pair show ?thesis by simp
  qed
qed

text \<open>
  Claim C6 on the code. On the seeded store, with fresh ids, an unused email and an
  unused username, \<^verbatim>\<open>signup\<close> is rejected for the missing username of the User row and
  leaves the store as it was: no account, password, user, membership or session is
  created.
\<close>

theorem signup_rejected_for_missing_user_columns:
  "signup 0 exHash asciiLower exIds dbSeed ''Alice@X.com'' ''Alice'' ''secret123'' ''Alice''
     = (dbSeed, ThrowError (NullConstraintFailed ''User.username''))"
  by code_simp


section \<open>Properties of the OAuth callback\<close>

lemma loader_authenticated:
  assumes "env_currentIsPrimary env" "provider \<in> set (env_providerNames env)"
    and "env_authenticate env provider request = Inr profile"
  shows "loader env st request provider =
     (case getAccountId (env_now env) (state_db st) request of
        ThrowResponse r \<Rightarrow> (st, ThrowResponse r)
      | ThrowError e \<Rightarrow> (st, ThrowError e)
      | Return accountId \<Rightarrow>
          (case (connection_findUnique (state_db st) provider (profile_id profile),
                 if truthyOpt accountId then accountId else None) of
             (Some c, Some a) \<Rightarrow>
               if connection_accountId c = Some a then
                 (st, Return
                    (redirectWithToast ''/settings/profile/connections''
                       \<lparr>toast_title = ''Already Connected'',
                        toast_description =
                          ''Your '' @ quoted (interpolate (profile_username profile)) @ '' ''
                          @ env_providerLabels env provider @ '' account is already connected.'',
                        toast_type = None\<rparr>
                       destroyRedirectTo))
               else
                 (st, Return
                    (redirectWithToast ''/settings/profile/connections''
                       \<lparr>toast_title = ''Already Connected'',
                        toast_description =
                          ''The '' @ quoted (interpolate (profile_username profile)) @ '' ''
                          @ env_providerLabels env provider
                          @ '' account is already connected to another account.'',
                        toast_type = None\<rparr>
                       destroyRedirectTo))
           | (None, Some a) \<Rightarrow>
               (case create_connection (env_newConnectionId env) provider
                       (profile_id profile) a (state_db st) of
                  Inl e \<Rightarrow> (st, ThrowError e)
                | Inr d' \<Rightarrow>
                    (st\<lparr>state_db := d'\<rparr>, Return
                       (redirectWithToast ''/settings/profile/connections''
                          \<lparr>toast_title = ''Connected'',
                           toast_description =
                             ''Your '' @ quoted (interpolate (profile_username profile))
                             @ '' '' @ env_providerLabels env provider
                             @ '' account has been connected.'',
                           toast_type = Some ''success''\<rparr>
                          destroyRedirectTo)))
           | (Some c, None) \<Rightarrow>
               makeSession env st request (connection_accountId c) []
           | (None, None) \<Rightarrow>
               (case account_findUnique_email (state_db st)
                       (env_toLowerCase env (profile_email profile)) of
                  Some u \<Rightarrow>
                    (case create_connection (env_newConnectionId env) provider
                            (profile_id profile) (account_id u) (state_db st) of
                       Inl e \<Rightarrow> (st, ThrowError e)
                     | Inr d' \<Rightarrow>
                         makeSession env (st\<lparr>state_db := d'\<rparr>) request (Some (account_id u))
                           (createToastHeaders
                              \<lparr>toast_title = ''Connected'',
                               toast_description =
                                 ''Your '' @ quoted (interpolate (profile_username profile))
                                 @ '' '' @ env_providerLabels env provider
                                 @ '' account has been connected.'',
                               toast_type = None\<rparr>))
                | None \<Rightarrow> (st, Return (onboard env request provider profile)))))"
  using assms unfolding loader_def Let_def by simp

lemma loader_exchange_failed:
  assumes "env_currentIsPrimary env" "provider \<in> set (env_providerNames env)"
    and "env_authenticate env provider request = Inl authError"
  shows "loader env st request provider =
     (st\<lparr>state_log := state_log st @ [authError]\<rparr>,
      ThrowResponse
        (Redirect ''/login''
           [DestroyRedirectTo,
            ToastCookie
              \<lparr>toast_title = ''Auth Failed'',
               toast_description =
                 ''There was an error authenticating with '' @ env_providerLabels env provider @ ''.'',
               toast_type = Some ''error''\<rparr>]))"
  using assms unfolding loader_def Let_def
  by (simp add: redirectWithToast_def combineHeaders_def createToastHeaders_def destroyRedirectTo_def)

text \<open>
  Claim C7. On the primary instance and for an accepted provider name, when
  \<^verbatim>\<open>authenticator.authenticate\<close> fails, the callback writes the error to the log once and
  throws the redirect to \<^verbatim>\<open>/login\<close> that carries the toast of type \<^verbatim>\<open>error\<close> and the
  header destroying the redirect-target cookie. The store is unchanged and the outcome
  is not a rejected error.
\<close>

theorem loader_exchange_failure_redirects_to_login:
  "env_currentIsPrimary env \<and> provider \<in> set (env_providerNames env)
     \<and> env_authenticate env provider request = Inl authError
   \<longrightarrow> loader env st request provider =
        (st\<lparr>state_log := state_log st @ [authError]\<rparr>,
         ThrowResponse
           (Redirect ''/login''
              [DestroyRedirectTo,
               ToastCookie
                 \<lparr>toast_title = ''Auth Failed'',
                  toast_description =
                    ''There was an error authenticating with ''
                    @ env_providerLabels env provider @ ''.'',
                  toast_type = Some ''error''\<rparr>]))
      \<and> state_log (fst (loader env st request provider)) = state_log st @ [authError]
      \<and> state_db (fst (loader env st request provider)) = state_db st
      \<and> snd (loader env st request provider) \<noteq> ThrowError e"
  by (simp add: loader_exchange_failed)

theorem loader_exchange_failure_redirects_to_login_witness:
  "loader (exEnv (Inl ''boom'')) \<lparr>state_db = dbConnected, state_log = []\<rparr>
       (exRequest (Some ''s2'')) ''github''
     = (\<lparr>state_db = dbConnected, state_log = [''boom'']\<rparr>,
        ThrowResponse
          (Redirect ''/login''
             [DestroyRedirectTo,
              ToastCookie
                \<lparr>toast_title = ''Auth Failed'',
                 toast_description = ''There was an error authenticating with GitHub.'',
                 toast_type = Some ''error''\<rparr>]))"
proof -
  have h: "env_currentIsPrimary (exEnv (Inl ''boom''))
      \<and> ''github'' \<in> set (env_providerNames (exEnv (Inl ''boom'')))
      \<and> env_authenticate (exEnv (Inl ''boom'')) ''github'' (exRequest (Some ''s2'')) = Inl ''boom''"
    by (simp add: exEnv_def)
  have l: "env_providerLabels (exEnv (Inl ''boom'')) ''github'' = ''GitHub''"
    by (simp add: exEnv_def)
  from h l loader_exchange_failure_redirects_to_login
      [where env = "exEnv (Inl ''boom'')" and provider = "''github''"
         and request = "exRequest (Some ''s2'')" and authError = "''boom''"
         and st = "\<lparr>state_db = dbConnected, state_log = []\<rparr>"]
  show ?thesis by simp
qed

lemma loader_own_connection:
  assumes "env_currentIsPrimary env" "provider \<in> set (env_providerNames env)"
    and "env_authenticate env provider request = Inr profile"
    and "connection_findUnique (state_db st) provider (profile_id profile) = Some c"
    and "getAccountId (env_now env) (state_db st) request = Return (Some a)" "truthy a"
    and "connection_accountId c = Some a"
  shows "loader env st request provider =
     (st, Return
        (Redirect ''/settings/profile/connections''
           [DestroyRedirectTo,
            ToastCookie
              \<lparr>toast_title = ''Already Connected'',
               toast_description =
                 ''Your '' @ quoted (interpolate (profile_username profile)) @ '' ''
                 @ env_providerLabels env provider @ '' account is already connected.'',
               toast_type = None\<rparr>]))"
  using assms
  by (simp add: loader_authenticated redirectWithToast_def combineHeaders_def
      createToastHeaders_def destroyRedirectTo_def)

text \<open>
  Claim C5. When the Connection found for the provider identity belongs to the account
  that \<^verbatim>\<open>getAccountId\<close> resolves for the caller, the callback returns the redirect to
  \<^verbatim>\<open>/settings/profile/connections\<close> with the toast \<^verbatim>\<open>Already Connected\<close> (no type given,
  the informational default) and leaves store and log as they were; running it again
  gives the same result, and the connections are the same rows.
\<close>

theorem loader_already_connected_idempotent:
  "env_currentIsPrimary env \<and> provider \<in> set (env_providerNames env)
     \<and> env_authenticate env provider request = Inr profile
     \<and> connection_findUnique (state_db st) provider (profile_id profile) = Some c
     \<and> getAccountId (env_now env) (state_db st) request = Return (Some a) \<and> truthy a
     \<and> connection_accountId c = Some a
   \<longrightarrow> loader env st request provider =
        (st, Return
           (Redirect ''/settings/profile/connections''
              [DestroyRedirectTo,
               ToastCookie
                 \<lparr>toast_title = ''Already Connected'',
                  toast_description =
                    ''Your '' @ quoted (interpolate (profile_username profile)) @ '' ''
                    @ env_providerLabels env provider @ '' account is already connected.'',
                  toast_type = None\<rparr>]))
      \<and> loader env (fst (loader env st request provider)) request provider
          = loader env st request provider
      \<and> connections (state_db (fst (loader env st request provider)))
          = connections (state_db st)"
  by (simp add: loader_own_connection)

theorem loader_already_connected_idempotent_witness:
  "loader (exEnv (Inr exProfile)) \<lparr>state_db = dbConnected, state_log = []\<rparr>
       (exRequest (Some ''s2'')) ''github''
     = (\<lparr>state_db = dbConnected, state_log = []\<rparr>,
        Return
          (Redirect ''/settings/profile/connections''
             [DestroyRedirectTo,
              ToastCookie
                \<lparr>toast_title = ''Already Connected'',
                 toast_description = ''Your '' @ quoted ''Alice'' @ '' GitHub account is already connected.'',
                 toast_type = None\<rparr>]))
   \<and> connections (state_db (fst (loader (exEnv (Inr exProfile))
          \<lparr>state_db = dbConnected, state_log = []\<rparr> (exRequest (Some ''s2'')) ''github'')))
       = connections dbConnected"
proof -
  let ?env = "exEnv (Inr exProfile)"
  let ?c = "\<lparr>connection_id = ''c1'', connection_providerName = ''github'',
            connection_providerId = ''gh1'', connection_accountId = Some ''a1''\<rparr>"
  have g: "getAccountId 1000 dbConnected (exRequest (Some ''s2'')) = Return (Some ''a1'')"
    by code_simp
  have f: "connection_findUnique dbConnected ''github'' ''gh1'' = Some ?c"
    by code_simp
  have h: "env_currentIsPrimary ?env \<and> ''github'' \<in> set (env_providerNames ?env)
      \<and> env_authenticate ?env ''github'' (exRequest (Some ''s2'')) = Inr exProfile
      \<and> connection_findUnique (state_db \<lparr>state_db = dbConnected, state_log = []\<rparr>) ''github''
           (profile_id exProfile) = Some ?c
      \<and> getAccountId (env_now ?env) (state_db \<lparr>state_db = dbConnected, state_log = []\<rparr>)
           (exRequest (Some ''s2'')) = Return (Some ''a1'') \<and> truthy ''a1''
      \<and> connection_accountId ?c = Some ''a1''"
    using g f by (simp add: exEnv_def exProfile_def truthy_def)
  have l: "env_providerLabels ?env ''github'' = ''GitHub''"
      "interpolate (profile_username exProfile) = ''Alice''"
    by (simp_all add: exEnv_def exProfile_def interpolate_def)
  from h l loader_already_connected_idempotent
      [where env = ?env and provider = "''github''" and request = "exRequest (Some ''s2'')"
         and profile = exProfile and st = "\<lparr>state_db = dbConnected, state_log = []\<rparr>"
         and c = ?c and a = "''a1''"]
  show ?thesis by simp
qed

lemma join2: "join sep [a, b] = a @ sep @ b"
  by simp

lemma onboard_eq:
  "onboard env request providerName profile =
     Redirect
       (''/onboarding/'' @ providerName @
          (case redirectCookieValue request of
             None \<Rightarrow> []
           | Some redirectTo \<Rightarrow>
               if truthy redirectTo then ''?redirectTo='' @ env_urlencode env redirectTo else []))
       [CommitVerifySession
          [(onboardingEmailSessionKey, VString (profile_email profile)),
           (prefilledProfileKey,
            VProfile (profile\<lparr>profile_email := env_normalizeEmail env (profile_email profile),
                               profile_username :=
                                 map_option (env_normalizeUsername env) (profile_username profile)\<rparr>)),
           (providerIdKey, VString (profile_id profile))],
        DestroyRedirectTo]"
  by (simp add: onboard_def Let_def combineHeaders_def destroyRedirectTo_def redirectToParams_def
      split: option.splits)

text \<open>
  Claim C8 as stated fails for a caller without a valid session whose cookie still
  carries a session id: \<^verbatim>\<open>getAccountId\<close> runs before every branch and throws, so with a new
  identity, no connection, no matching account and the stale session id \<^verbatim>\<open>old\<close> the
  callback throws the redirect to the home route and nobody is onboarded.
\<close>

theorem loader_stale_session_not_onboarded:
  "sessions dbSeed = []
   \<and> connection_findUnique dbSeed ''github'' (profile_id exProfile) = None
   \<and> account_findUnique_email dbSeed (asciiLower (profile_email exProfile)) = None
   \<and> loader (exEnv (Inr exProfile)) \<lparr>state_db = dbSeed, state_log = []\<rparr>
        (exRequest (Some ''old'')) ''github''
       = (\<lparr>state_db = dbSeed, state_log = []\<rparr>,
          ThrowResponse (Redirect ''/'' [DestroyAuthSession]))"
  by code_simp

text \<open>
  Claim C8, amended. When no Connection exists for the provider identity, \<^verbatim>\<open>getAccountId\<close>
  returns \<^verbatim>\<open>null\<close> (the cookie carries no session id) and no Account has the lower-cased
  profile email, the callback returns a redirect to \<^verbatim>\<open>/onboarding/{provider}\<close>, followed
  by \<^verbatim>\<open>?redirectTo=...\<close> exactly when the redirect-target cookie gave a non-empty value.
  Its headers commit a verification session holding the profile email, the profile with
  normalized email and username, and the provider id, and destroy the redirect-target
  cookie. Store and log are unchanged, and no auth session cookie is set.
\<close>

theorem loader_new_identity_onboards:
  "env_currentIsPrimary env \<and> provider \<in> set (env_providerNames env)
     \<and> env_authenticate env provider request = Inr profile
     \<and> connection_findUnique (state_db st) provider (profile_id profile) = None
     \<and> getAccountId (env_now env) (state_db st) request = Return None
     \<and> account_findUnique_email (state_db st) (env_toLowerCase env (profile_email profile)) = None
   \<longrightarrow> loader env st request provider =
        (st, Return
           (Redirect
              (''/onboarding/'' @ provider @
                 (case redirectCookieValue request of
                    None \<Rightarrow> []
                  | Some redirectTo \<Rightarrow>
                      if truthy redirectTo then ''?redirectTo='' @ env_urlencode env redirectTo
                      else []))
              [CommitVerifySession
                 [(onboardingEmailSessionKey, VString (profile_email profile)),
                  (prefilledProfileKey,
                   VProfile
                     (profile\<lparr>profile_email := env_normalizeEmail env (profile_email profile),
                              profile_username :=
                                map_option (env_normalizeUsername env) (profile_username profile)\<rparr>)),
                  (providerIdKey, VString (profile_id profile))],
               DestroyRedirectTo]))"
  by (simp add: loader_authenticated onboard_eq)

theorem loader_new_identity_onboards_witness:
  "loader (exEnv (Inr exProfile)) \<lparr>state_db = dbSeed, state_log = []\<rparr>
       ((exRequest None)\<lparr>redirectCookieValue := Some ''/x''\<rparr>) ''github''
     = (\<lparr>state_db = dbSeed, state_log = []\<rparr>,
        Return
          (Redirect ''/onboarding/github?redirectTo=/x''
             [CommitVerifySession
                [(onboardingEmailSessionKey, VString ''Alice@X.com''),
                 (prefilledProfileKey,
                  VProfile \<lparr>profile_id = ''gh1'', profile_email = ''alice@x.com'',
                            profile_username = Some ''alice'', profile_name = Some ''Alice'',
                            profile_imageUrl = None\<rparr>),
                 (providerIdKey, VString ''gh1'')],
              DestroyRedirectTo]))
   \<and> loader (exEnv (Inr exProfile)) \<lparr>state_db = dbSeed, state_log = []\<rparr>
       (exRequest None) ''github''
     = (\<lparr>state_db = dbSeed, state_log = []\<rparr>,
        Return
          (Redirect ''/onboarding/github''
             [CommitVerifySession
                [(onboardingEmailSessionKey, VString ''Alice@X.com''),
                 (prefilledProfileKey,
                  VProfile \<lparr>profile_id = ''gh1'', profile_email = ''alice@x.com'',
                            profile_username = Some ''alice'', profile_name = Some ''Alice'',
                            profile_imageUrl = None\<rparr>),
                 (providerIdKey, VString ''gh1'')],
              DestroyRedirectTo]))"
proof -
  let ?env = "exEnv (Inr exProfile)"
  let ?st = "\<lparr>state_db = dbSeed, state_log = []\<rparr>"
  let ?rq = "(exRequest None)\<lparr>redirectCookieValue := Some ''/x''\<rparr>"
  have low: "asciiLower ''Alice@X.com'' = ''alice@x.com''" "asciiLower ''Alice'' = ''alice''"
    by code_simp+
  have h: "env_currentIsPrimary ?env \<and> ''github'' \<in> set (env_providerNames ?env)
      \<and> env_authenticate ?env ''github'' rq = Inr exProfile
      \<and> connection_findUnique (state_db ?st) ''github'' (profile_id exProfile) = None
      \<and> account_findUnique_email (state_db ?st) (env_toLowerCase ?env (profile_email exProfile)) = None"
    for rq
    by (simp add: exEnv_def exProfile_def connection_findUnique_def account_findUnique_email_def
        dbSeed_def)
  have g: "getAccountId (env_now ?env) (state_db ?st) ?rq = Return None"
      "getAccountId (env_now ?env) (state_db ?st) (exRequest None) = Return None"
    by (simp_all add: getAccountId_def exRequest_def)
  have v: "env_normalizeEmail ?env = asciiLower" "env_normalizeUsername ?env = asciiLower"
      "profile_username exProfile = Some ''Alice''"
      "env_urlencode ?env ''/x'' = ''/x''" "redirectCookieValue ?rq = Some ''/x''"
      "redirectCookieValue (exRequest None) = None" "truthy ''/x''"
      "profile_id exProfile = ''gh1''" "profile_email exProfile = ''Alice@X.com''"
    by (simp_all add: exEnv_def exProfile_def low exRequest_def truthy_def)
  have p: "exProfile\<lparr>profile_email := ''alice@x.com'', profile_username := Some ''alice''\<rparr>
      = \<lparr>profile_id = ''gh1'', profile_email = ''alice@x.com'',
         profile_username = Some ''alice'', profile_name = Some ''Alice'',
         profile_imageUrl = None\<rparr>"
    by (simp add: exProfile_def)
  note T = loader_new_identity_onboards
      [where env = ?env and provider = "''github''" and profile = exProfile and st = ?st]
  have a: "loader ?env ?st ?rq ''github''
     = (?st, Return
          (Redirect ''/onboarding/github?redirectTo=/x''
             [CommitVerifySession
                [(onboardingEmailSessionKey, VString ''Alice@X.com''),
                 (prefilledProfileKey,
                  VProfile \<lparr>profile_id = ''gh1'', profile_email = ''alice@x.com'',
                            profile_username = Some ''alice'', profile_name = Some ''Alice'',
                            profile_imageUrl = None\<rparr>),
                 (providerIdKey, VString ''gh1'')],
              DestroyRedirectTo]))"
    using T[where request = ?rq] h[of ?rq] g(1) by (simp add: v low p)
  have b: "loader ?env ?st (exRequest None) ''github''
     = (?st, Return
          (Redirect ''/onboarding/github''
             [CommitVerifySession
                [(onboardingEmailSessionKey, VString ''Alice@X.com''),
                 (prefilledProfileKey,
                  VProfile \<lparr>profile_id = ''gh1'', profile_email = ''alice@x.com'',
                            profile_username = Some ''alice'', profile_name = Some ''Alice'',
                            profile_imageUrl = None\<rparr>),
                 (providerIdKey, VString ''gh1'')],
              DestroyRedirectTo]))"
    using T[where request = "exRequest None"] h[of "exRequest None"] g(2) by (simp add: v low p)
  from a b show ?thesis by simp
qed

lemma makeSession_keeps_accountToSession:
  "accountToSession (state_db (fst (makeSession env st request activeAccountId headers)))
     = accountToSession (state_db st)"
  by (simp add: makeSession_def Let_def create_session_def split: sum.splits)

lemma login_Return_links_account:
  assumes "login now compare newId d username password = (d', Return (Some s))"
  shows "\<exists>a. verifyAccountPassword compare d (ByUsername username) password = Some a
           \<and> session_activeAccountId s = Some a
           \<and> session_expirationDate s = getSessionExpirationDate now
           \<and> (a, newId) \<in> set (accountToSession d')
           \<and> sessions d' = sessions d @ [s]"
proof (cases "verifyAccountPassword compare d (ByUsername username) password")
  case None
  with assms show ?thesis by (simp add: login_def)
next
  case (Some a)
  with assms obtain d1 where
    s1: "create_session newId (getSessionExpirationDate now) (Some a) d = Inr d1" and
    s2: "connect_account_session a newId d1 = Inr d'" and
    s: "s = \<lparr>session_id = newId, session_expirationDate = getSessionExpirationDate now,
              session_activeAccountId = Some a\<rparr>"
    unfolding login_def
    by (auto simp add: transaction_Return writes_Cons_Inr writes_Nil_Inr simp del: writes.simps)
  from create_session_Inr[OF s1] connect_account_session_Inr[OF s2] Some s
  show ?thesis by auto
qed

text \<open>The store \<open>dbLoggedIn\<close> is what \<^verbatim>\<open>login\<close> of Alice leaves.\<close>

lemma login_example:
  "login 0 exCompare ''s2'' dbAlice ''alice'' ''secret123''
     = (dbLoggedIn,
        Return (Some \<lparr>session_id = ''s2'', session_expirationDate = 2592000000,
                      session_activeAccountId = Some ''a1''\<rparr>))"
  by code_simp

text \<open>
  Claim C2 on the code. For the connected account of Alice and a caller without a
  session, the callback's \<^verbatim>\<open>makeSession\<close> adds a session row with the active account and
  the expiration date that \<^verbatim>\<open>login\<close> would write, but no row linking the account to the
  session, which \<^verbatim>\<open>login\<close> adds. \<^verbatim>\<open>getAccountId\<close> then resolves the login session and
  answers the callback's session with the home redirect.
\<close>

theorem makeSession_omits_account_link:
  "fst (loader (exEnv (Inr exProfile)) \<lparr>state_db = dbConnected, state_log = []\<rparr>
          (exRequest None) ''github'')
     = \<lparr>state_db = dbConnected
          \<lparr>sessions := sessions dbConnected @
             [\<lparr>session_id = ''s3'', session_expirationDate = 2592001000,
               session_activeAccountId = Some ''a1''\<rparr>]\<rparr>,
        state_log = []\<rparr>
   \<and> fst (login 1000 exCompare ''s3'' dbConnected ''alice'' ''secret123'')
     = dbConnected
          \<lparr>sessions := sessions dbConnected @
             [\<lparr>session_id = ''s3'', session_expirationDate = 2592001000,
               session_activeAccountId = Some ''a1''\<rparr>],
           accountToSession := accountToSession dbConnected @ [(''a1'', ''s3'')]\<rparr>
   \<and> getAccountId 2000
        (state_db (fst (loader (exEnv (Inr exProfile)) \<lparr>state_db = dbConnected, state_log = []\<rparr>
                          (exRequest None) ''github'')))
        (exRequest (Some ''s3''))
     = ThrowResponse homeRedirect
   \<and> getAccountId 2000 (fst (login 1000 exCompare ''s3'' dbConnected ''alice'' ''secret123''))
        (exRequest (Some ''s3''))
     = Return (Some ''a1'')"
  by code_simp

section \<open>Properties of the permission checks\<close>

lemma requireUserWithPermission_Return_iff:
  "requireUserWithPermission now enc og d req permission = Return i \<longleftrightarrow>
     requireAccountId now enc d req Undefined = Return i
     \<and> list_ex (\<lambda>u. user_id u = i
                  \<and> list_ex (\<lambda>m. membership_userId m = Some (user_id u)
                                 \<and> membership_has_permission d (organizationScope og)
                                     (parsePermissionString permission) m)
                       (memberships d))
         (users d)"
proof (cases "requireAccountId now enc d req Undefined")
  case (Return userId)
  let ?P = "\<lambda>u. user_id u = userId
                  \<and> list_ex (\<lambda>m. membership_userId m = Some (user_id u)
                                 \<and> membership_has_permission d (organizationScope og)
                                     (parsePermissionString permission) m)
                       (memberships d)"
  show ?thesis
  proof (cases "find ?P (users d)")
    case None
    then have "\<not> list_ex ?P (users d)" by (simp add: find_None_list_ex)
    with None Return show ?thesis
      by (auto simp: requireUserWithPermission_def Let_def user_findFirst_withPermission_def)
  next
    case (Some u)
    from find_SomeD[OF Some] have "?P u" "list_ex ?P (users d)" by (auto simp: list_ex_iff)
    with Some Return show ?thesis
      by (auto simp: requireUserWithPermission_def Let_def user_findFirst_withPermission_def)
  qed
qed (simp_all add: requireUserWithPermission_def)

lemma requireUserWithPermission_no_match:
  assumes "requireAccountId now enc d req Undefined = Return i"
    and "\<not> list_ex (\<lambda>u. user_id u = i
                  \<and> list_ex (\<lambda>m. membership_userId m = Some (user_id u)
                                 \<and> membership_has_permission d (organizationScope og)
                                     (parsePermissionString permission) m)
                       (memberships d))
         (users d)"
  shows "requireUserWithPermission now enc og d req permission
           = ThrowResponse (unauthorizedPermission permission (parsePermissionString permission))"
  using assms
  by (simp add: requireUserWithPermission_def Let_def user_findFirst_withPermission_def
      find_None_list_ex[symmetric])

text \<open>
  Claim C4 on the code. In the store \<open>dbLoggedIn\<close> the account \<^verbatim>\<open>a1\<close> of the caller has
  the user \<^verbatim>\<open>u1\<close>, whose membership in the default organization has the role \<^verbatim>\<open>user\<close>
  with the permission \<^verbatim>\<open>read:note:any\<close>: the query finds that user when it is given the
  user's id. \<^verbatim>\<open>requireUserWithPermission\<close> gives the query the account id, finds no User
  row and throws the 403 response with the parsed descriptor.
\<close>

theorem requireUserWithPermission_reads_user_by_account_id:
  "requireAccountId 1000 id dbLoggedIn (exRequest (Some ''s2'')) Undefined = Return ''a1''
   \<and> users dbLoggedIn = [\<lparr>user_id = ''u1'', user_accountId = ''a1'', user_name = ''Alice'',
               user_username = ''alice'', user_email = ''alice@x.com''\<rparr>]
   \<and> user_findFirst_withPermission dbLoggedIn ''u1'' (organizationScope None)
        (parsePermissionString ''read:note:any'')
       = Some \<lparr>user_id = ''u1'', user_accountId = ''a1'', user_name = ''Alice'',
               user_username = ''alice'', user_email = ''alice@x.com''\<rparr>
   \<and> requireUserWithPermission 1000 id None dbLoggedIn (exRequest (Some ''s2'')) ''read:note:any''
       = ThrowResponse
           (Json \<lparr>body_error = ''Unauthorized'',
                  body_required =
                    RequiredPermission
                      \<lparr>pd_action = ''read'', pd_entity = Some ''note'', pd_access = Some [''any'']\<rparr>,
                  body_message = ''Unauthorized: required permissions: read:note:any''\<rparr> 403)"
  by code_simp

text \<open>
  After authentication \<^verbatim>\<open>requireUserWithRole\<close> is rejected with the error of its query;
  it returns no account id and throws no 403.
\<close>

lemma requireUserWithRole_authenticated:
  "requireAccountId now enc d req Undefined = Return a \<Longrightarrow>
     requireUserWithRole now enc d req name = ThrowError (ValidationError ''User.roles'')"
  by (simp add: requireUserWithRole_def user_findFirst_withRole_def)

lemma requireUserWithRole_never_returns:
  "requireUserWithRole now enc d req name \<noteq> Return i"
  by (simp add: requireUserWithRole_def user_findFirst_withRole_def split: outcome.splits)


end
